theory Spec2Isabelle
  imports
    Main
    "HOL-Library.Multiset"
    "HOL-Library.Char_ord"
    "HOL-Library.List_Lexorder"
    "HOL-Library.Product_Lexorder"
begin

section \<open>Splice sites from a GTF table: \<^verbatim>\<open>scripts/process_gtf.py\<close>\<close>

text \<open>
  The development embeds \<^verbatim>\<open>generate_splice_sites\<close>:
  \<^verbatim>\<open>
  def generate_splice_sites(gtf):
    transcripts = {
        k: transcript_utils.Transcript.from_gtf_df(df)
        for k, df in gtf.groupby('transcript_id')
    }
    junctions = []
    for _, transcript in transcripts.items():
      junctions.extend(
          [x.chromosome, x.start, x.end, x.strand] for x in transcript.introns
      )
    df = pd.DataFrame(
        junctions, columns=['Chromosome', 'Start', 'End', 'Strand']
    ).sort_values(by=['Chromosome', 'Start'])
    df = df.drop_duplicates().reset_index(drop=True)
    return (
        df[['Chromosome', 'Start', 'Strand']],
        df[['Chromosome', 'End', 'Strand']],
    )
  \<close>
  Strings are compared as Python compares them, lexicographically by character
  (\<open>List_Lexorder\<close> over \<open>Char_ord\<close>); a pair of sort keys is compared
  lexicographically (\<open>Product_Lexorder\<close>); Python's integers are \<open>int\<close>.
\<close>

subsection \<open>Data model\<close>

text \<open>
  A data frame is its list of column names and its list of rows. The position of a row
  in the list is its position in the frame; index labels are not modelled, so
  \<^verbatim>\<open>reset_index(drop=True)\<close>, which only renumbers them, leaves a frame as it is.
\<close>

record 'r dataframe =
  columns :: "string list"
  rows :: "'r list"

text \<open>
  A row of the frame of junctions has the four columns the source names. A row of the
  annotation table has these and four more; an absent \<^verbatim>\<open>transcript_id\<close> (NaN in the
  frame) is \<open>None\<close>.
\<close>

record junction =
  Chromosome :: string
  Start :: int
  End :: int
  Strand :: string

record gtf_row = junction +
  Feature :: string
  gene_id :: string
  transcript_id :: "string option"
  gene_id_nopatch :: string

text \<open>
  The objects of \<^verbatim>\<open>transcript.introns\<close> are read through the attributes
  \<^verbatim>\<open>chromosome\<close>, \<^verbatim>\<open>start\<close>, \<^verbatim>\<open>end\<close> and \<^verbatim>\<open>strand\<close>. An exon interval has the first
  three, an intron all four.
\<close>

record exon =
  chromosome :: string
  start :: int
  end' :: int

record intron = exon +
  strand :: string

datatype error =
  KeyError string
| MalformedGroupError

subsection \<open>The pandas operations the function calls\<close>

text \<open>
  \<^verbatim>\<open>gtf.groupby('transcript_id')\<close> raises \<^verbatim>\<open>KeyError\<close> when the frame has no such
  column. Otherwise it yields one group per distinct key present, in ascending key order;
  rows whose key is NaN belong to no group; the rows of a group keep their order.
\<close>

definition groupby_transcript_id ::
  "gtf_row dataframe \<Rightarrow> error + (string \<times> gtf_row dataframe) list" where
  "groupby_transcript_id gtf =
     (if ''transcript_id'' \<notin> set (columns gtf) then Inl (KeyError ''transcript_id'')
      else Inr (map (\<lambda>k. (k, gtf\<lparr>rows := filter (\<lambda>r. transcript_id r = Some k) (rows gtf)\<rparr>))
                    (sort (remdups (List.map_filter transcript_id (rows gtf))))))"

text \<open>
  \<^verbatim>\<open>sort_values(by=['Chromosome', 'Start'])\<close>: ascending by the pair of keys; rows with
  equal keys keep their relative order (pandas sorts on several keys with a stable
  lexsort).
\<close>

definition sort_values :: "junction dataframe \<Rightarrow> junction dataframe" where
  "sort_values df = df\<lparr>rows := sort_key (\<lambda>r. (Chromosome r, Start r)) (rows df)\<rparr>"

text \<open>
  \<^verbatim>\<open>drop_duplicates()\<close> keeps a row unless an equal row stands before it
  (\<^verbatim>\<open>keep='first'\<close>). \<open>duplicated seen xs\<close> walks the rows with the rows seen so far.
\<close>

fun duplicated :: "'r list \<Rightarrow> 'r list \<Rightarrow> bool list" where
  "duplicated seen [] = []"
| "duplicated seen (x # xs) = (x \<in> set seen) # duplicated (x # seen) xs"

definition drop_duplicates :: "'r dataframe \<Rightarrow> 'r dataframe" where
  "drop_duplicates df =
     df\<lparr>rows := map fst (filter (\<lambda>(x, d). \<not> d) (zip (rows df) (duplicated [] (rows df))))\<rparr>"

definition reset_index :: "'r dataframe \<Rightarrow> 'r dataframe" where
  "reset_index df = df"

subsection \<open>The function\<close>

text \<open>
  \<^verbatim>\<open>Transcript.from_gtf_df\<close> and the property \<^verbatim>\<open>introns\<close> belong to another module;
  the function takes them as the parameters \<open>from_gtf_df\<close> and \<open>introns\<close>. Either may
  raise, and an exception leaves the function at once.

  The dictionary comprehension calls \<open>from_gtf_df\<close> on every group, in the order of the
  groups. The keys of the groups are distinct, so the dictionary is the list of its items
  in that order.
\<close>

fun transcripts ::
  "(gtf_row dataframe \<Rightarrow> error + 't) \<Rightarrow> (string \<times> gtf_row dataframe) list
     \<Rightarrow> error + (string \<times> 't) list" where
  "transcripts from_gtf_df [] = Inr []"
| "transcripts from_gtf_df ((k, df) # groups) =
     (case from_gtf_df df of
        Inl e \<Rightarrow> Inl e
      | Inr t \<Rightarrow>
          (case transcripts from_gtf_df groups of
             Inl e \<Rightarrow> Inl e
           | Inr ts \<Rightarrow> Inr ((k, t) # ts)))"

text \<open>The loop that extends \<^verbatim>\<open>junctions\<close> with one row per intron of each transcript.\<close>

definition junction_of :: "intron \<Rightarrow> junction" where
  "junction_of x =
     \<lparr>Chromosome = chromosome x, Start = start x, End = end' x, Strand = strand x\<rparr>"

fun junctions :: "('t \<Rightarrow> error + intron list) \<Rightarrow> (string \<times> 't) list \<Rightarrow> error + junction list" where
  "junctions introns [] = Inr []"
| "junctions introns ((k, transcript) # ts) =
     (case introns transcript of
        Inl e \<Rightarrow> Inl e
      | Inr xs \<Rightarrow>
          (case junctions introns ts of
             Inl e \<Rightarrow> Inl e
           | Inr js \<Rightarrow> Inr (map junction_of xs @ js)))"

text \<open>Everything up to the list \<^verbatim>\<open>junctions\<close>, before the frame is built.\<close>

definition accumulate ::
  "(gtf_row dataframe \<Rightarrow> error + 't) \<Rightarrow> ('t \<Rightarrow> error + intron list) \<Rightarrow> gtf_row dataframe
     \<Rightarrow> error + junction list" where
  "accumulate from_gtf_df introns gtf =
     (case groupby_transcript_id gtf of
        Inl e \<Rightarrow> Inl e
      | Inr groups \<Rightarrow>
          (case transcripts from_gtf_df groups of
             Inl e \<Rightarrow> Inl e
           | Inr ts \<Rightarrow> junctions introns ts))"

text \<open>The two column selections of the return statement.\<close>

definition select_start :: "junction dataframe \<Rightarrow> (string \<times> int \<times> string) dataframe" where
  "select_start df =
     \<lparr>columns = [''Chromosome'', ''Start'', ''Strand''],
      rows = map (\<lambda>r. (Chromosome r, Start r, Strand r)) (rows df)\<rparr>"

definition select_end :: "junction dataframe \<Rightarrow> (string \<times> int \<times> string) dataframe" where
  "select_end df =
     \<lparr>columns = [''Chromosome'', ''End'', ''Strand''],
      rows = map (\<lambda>r. (Chromosome r, End r, Strand r)) (rows df)\<rparr>"

definition generate_splice_sites ::
  "(gtf_row dataframe \<Rightarrow> error + 't) \<Rightarrow> ('t \<Rightarrow> error + intron list) \<Rightarrow> gtf_row dataframe
     \<Rightarrow> error + ((string \<times> int \<times> string) dataframe \<times> (string \<times> int \<times> string) dataframe)" where
  "generate_splice_sites from_gtf_df introns gtf =
     (case accumulate from_gtf_df introns gtf of
        Inl e \<Rightarrow> Inl e
      | Inr js \<Rightarrow>
          (let df = sort_values \<lparr>columns = [''Chromosome'', ''Start'', ''End'', ''Strand''], rows = js\<rparr>;
               df = reset_index (drop_duplicates df)
           in Inr (select_start df, select_end df)))"

subsection \<open>Every run of the function\<close>

text \<open>
  The function above sorts with \<open>sort_key\<close>. A run of the source may sort with any
  procedure that is a stable sort on the pair of keys: the rows come out as a rearrangement
  of the rows that went in, ascending by key, rows of equal key in the order they had.
  \<open>run\<close> relates a table to every result such a run can return or raise.
\<close>

inductive run ::
  "(gtf_row dataframe \<Rightarrow> error + 't) \<Rightarrow> ('t \<Rightarrow> error + intron list) \<Rightarrow> gtf_row dataframe
     \<Rightarrow> error + ((string \<times> int \<times> string) dataframe \<times> (string \<times> int \<times> string) dataframe)
     \<Rightarrow> bool"
  for from_gtf_df introns gtf where
  raises: "accumulate from_gtf_df introns gtf = Inl e \<Longrightarrow> run from_gtf_df introns gtf (Inl e)"
| returns:
    "accumulate from_gtf_df introns gtf = Inr js \<Longrightarrow>
     mset ys = mset js \<Longrightarrow>
     sorted (map (\<lambda>r. (Chromosome r, Start r)) ys) \<Longrightarrow>
     (\<And>k. filter (\<lambda>r. (Chromosome r, Start r) = k) ys
           = filter (\<lambda>r. (Chromosome r, Start r) = k) js) \<Longrightarrow>
     df = reset_index (drop_duplicates
            \<lparr>columns = [''Chromosome'', ''Start'', ''End'', ''Strand''], rows = ys\<rparr>) \<Longrightarrow>
     run from_gtf_df introns gtf (Inr (select_start df, select_end df))"

subsection \<open>Rows kept, stated by position\<close>

text \<open>The rows that \<open>duplicated\<close> does not mark, in their order.\<close>

definition kept :: "'r list \<Rightarrow> 'r list \<Rightarrow> 'r list" where
  "kept seen xs = map fst (filter (\<lambda>(x, d). \<not> d) (zip xs (duplicated seen xs)))"

text \<open>
  The first occurrences of a list: the entries that no entry at a smaller position
  equals, in the order of their positions.
\<close>

definition first_occurrences :: "'r list \<Rightarrow> 'r list" where
  "first_occurrences xs =
     map (\<lambda>i. xs ! i) (filter (\<lambda>i. xs ! i \<notin> set (take i xs)) [0..<length xs])"

subsection \<open>The transcript module\<close>

text \<open>
  Modelled from the spec: the class \<^verbatim>\<open>Transcript\<close> of \<^verbatim>\<open>alphagenome.data.transcript\<close>,
  which \<^verbatim>\<open>generate_splice_sites\<close> calls and whose source is not at hand. A transcript
  owns its exon intervals in ascending order of start, and the one chromosome and the one
  strand that its exons share; a transcript without exons has neither.
\<close>

record transcript =
  exons :: "exon list"
  transcript_chromosome :: "string option"
  transcript_strand :: "string option"

text \<open>
  Modelled from the spec: the exon interval that \<^verbatim>\<open>Transcript.from_gtf_df\<close> makes of an
  exon row.
\<close>

definition exon_of :: "gtf_row \<Rightarrow> exon" where
  "exon_of r = \<lparr>chromosome = Chromosome r, start = Start r, end' = End r\<rparr>"

text \<open>
  Modelled from the spec: \<^verbatim>\<open>Transcript.from_gtf_df\<close>. The exon list is exactly the rows
  of the partition whose feature is \<^verbatim>\<open>exon\<close>, sorted by start ascending. Exon rows
  that disagree on chromosome or strand are a malformed group, surfaced at once.
\<close>

definition Transcript_from_gtf_df :: "gtf_row dataframe \<Rightarrow> error + transcript" where
  "Transcript_from_gtf_df df =
     (case sort_key Start (filter (\<lambda>r. Feature r = ''exon'') (rows df)) of
        [] \<Rightarrow> Inr \<lparr>exons = [], transcript_chromosome = None, transcript_strand = None\<rparr>
      | r # rs \<Rightarrow>
          if \<forall>x\<in>set rs. Chromosome x = Chromosome r \<and> Strand x = Strand r
          then Inr \<lparr>exons = map exon_of (r # rs),
                    transcript_chromosome = Some (Chromosome r),
                    transcript_strand = Some (Strand r)\<rparr>
          else Inl MalformedGroupError)"

text \<open>
  Modelled from the spec: the property \<^verbatim>\<open>Transcript.introns\<close>. One intron for each pair
  of consecutive exons, from the end of the first to the start of the second, on the
  chromosome and strand of the transcript.
\<close>

definition Transcript_introns :: "transcript \<Rightarrow> error + intron list" where
  "Transcript_introns t =
     (case (transcript_chromosome t, transcript_strand t) of
        (Some c, Some s) \<Rightarrow>
          Inr (map (\<lambda>(a, b). \<lparr>chromosome = c, start = end' a, end' = start b, strand = s\<rparr>)
                   (zip (exons t) (tl (exons t))))
      | _ \<Rightarrow> Inr [])"

subsection \<open>Conditions and results the statements name\<close>

text \<open>
  The exon rows of a frame disagree when two of them differ in chromosome or in strand.
\<close>

definition exon_rows_disagree :: "gtf_row dataframe \<Rightarrow> bool" where
  "exon_rows_disagree df =
     (\<exists>a\<in>set (rows df). \<exists>b\<in>set (rows df).
        Feature a = ''exon'' \<and> Feature b = ''exon''
      \<and> (Chromosome a \<noteq> Chromosome b \<or> Strand a \<noteq> Strand b))"


subsection \<open>Tables to run the function on\<close>

definition gtf_columns :: "string list" where
  "gtf_columns =
     [''Chromosome'', ''Start'', ''End'', ''Strand'', ''Feature'', ''gene_id'',
      ''transcript_id'', ''gene_id_nopatch'']"

definition gtf_line :: "string \<Rightarrow> int \<Rightarrow> int \<Rightarrow> string \<Rightarrow> string \<Rightarrow> string option \<Rightarrow> gtf_row" where
  "gtf_line c s e d f t =
     \<lparr>Chromosome = c, Start = s, End = e, Strand = d, Feature = f,
      gene_id = ''GENE00000000001.1'', transcript_id = t,
      gene_id_nopatch = ''GENE00000000001''\<rparr>"

text \<open>
  The frame \<^verbatim>\<open>_PROCESSED_GTF\<close> of the test module. Every row of the tables below has
  the gene identifiers of that frame.
\<close>

definition processed_gtf :: "gtf_row dataframe" where
  "processed_gtf =
     \<lparr>columns = gtf_columns,
      rows =
        [gtf_line ''chr1'' 12099 21316 ''+'' ''gene'' None,
         gtf_line ''chr1'' 12099 18244 ''+'' ''transcript'' (Some ''TRANS00000000001.2''),
         gtf_line ''chr1'' 12099 14148 ''+'' ''exon'' (Some ''TRANS00000000001.2''),
         gtf_line ''chr1'' 16195 17220 ''+'' ''exon'' (Some ''TRANS00000000001.2'')]\<rparr>"

text \<open>
  Four transcripts. \<open>T1\<close> and \<open>T2\<close> share the intron from 10 to 20; their second
  introns both start at 30 and end at 40 and at 45; the intron of \<open>T3\<close> ends at 20 as
  well and starts at 15. \<open>T0\<close>, the first key, lies on the chromosome that sorts last.
  The rows of \<open>T2\<close> are not in ascending order of start.
\<close>

definition four_transcripts :: "gtf_row dataframe" where
  "four_transcripts =
     \<lparr>columns = gtf_columns,
      rows =
        [gtf_line ''chr1'' 0 50 ''+'' ''gene'' None,
         gtf_line ''chr1'' 20 30 ''+'' ''exon'' (Some ''T2''),
         gtf_line ''chr1'' 45 50 ''+'' ''exon'' (Some ''T2''),
         gtf_line ''chr1'' 0 10 ''+'' ''exon'' (Some ''T2''),
         gtf_line ''chr1'' 0 10 ''+'' ''exon'' (Some ''T1''),
         gtf_line ''chr1'' 20 30 ''+'' ''exon'' (Some ''T1''),
         gtf_line ''chr1'' 40 50 ''+'' ''exon'' (Some ''T1''),
         gtf_line ''chr1'' 0 15 ''+'' ''exon'' (Some ''T3''),
         gtf_line ''chr1'' 20 30 ''+'' ''exon'' (Some ''T3''),
         gtf_line ''chr2'' 5 8 ''-'' ''exon'' (Some ''T0''),
         gtf_line ''chr2'' 9 12 ''-'' ''exon'' (Some ''T0'')]\<rparr>"

definition junction_row :: "string \<Rightarrow> int \<Rightarrow> int \<Rightarrow> string \<Rightarrow> junction" where
  "junction_row c s e d = \<lparr>Chromosome = c, Start = s, End = e, Strand = d\<rparr>"

text \<open>The junctions of the four transcripts as accumulated, and the two frames returned.\<close>

definition four_transcripts_junctions :: "junction list" where
  "four_transcripts_junctions =
     [junction_row ''chr2'' 8 9 ''-'',
      junction_row ''chr1'' 10 20 ''+'', junction_row ''chr1'' 30 40 ''+'',
      junction_row ''chr1'' 10 20 ''+'', junction_row ''chr1'' 30 45 ''+'',
      junction_row ''chr1'' 15 20 ''+'']"

definition four_transcripts_starts :: "(string \<times> int \<times> string) dataframe" where
  "four_transcripts_starts =
     \<lparr>columns = [''Chromosome'', ''Start'', ''Strand''],
      rows = [(''chr1'', 10, ''+''), (''chr1'', 15, ''+''), (''chr1'', 30, ''+''),
              (''chr1'', 30, ''+''), (''chr2'', 8, ''-'')]\<rparr>"

definition four_transcripts_ends :: "(string \<times> int \<times> string) dataframe" where
  "four_transcripts_ends =
     \<lparr>columns = [''Chromosome'', ''End'', ''Strand''],
      rows = [(''chr1'', 20, ''+''), (''chr1'', 20, ''+''), (''chr1'', 40, ''+''),
              (''chr1'', 45, ''+''), (''chr2'', 9, ''-'')]\<rparr>"

text \<open>A transcript whose two exons lie on different strands.\<close>

definition mixed_strands :: "gtf_row dataframe" where
  "mixed_strands =
     \<lparr>columns = gtf_columns,
      rows =
        [gtf_line ''chr1'' 0 10 ''+'' ''exon'' (Some ''T1''),
         gtf_line ''chr1'' 20 30 ''-'' ''exon'' (Some ''T1'')]\<rparr>"





section \<open>Properties\<close>

subsection \<open>Rows kept by \<open>drop_duplicates\<close>\<close>

lemma kept_Nil: "kept seen [] = []"
  by (simp add: kept_def)

lemma kept_Cons:
  "kept seen (x # xs) = (if x \<in> set seen then kept (x # seen) xs else x # kept (x # seen) xs)"
  by (simp add: kept_def)

lemma rows_drop_duplicates: "rows (drop_duplicates df) = kept [] (rows df)"
  by (simp add: drop_duplicates_def kept_def)

lemma columns_drop_duplicates: "columns (drop_duplicates df) = columns df"
  by (simp add: drop_duplicates_def)

lemma set_kept: "set (kept seen xs) = set xs - set seen"
  by (induction xs arbitrary: seen) (auto simp: kept_Nil kept_Cons)

lemma distinct_kept: "distinct (kept seen xs)"
  by (induction xs arbitrary: seen) (auto simp: kept_Nil kept_Cons set_kept)

lemma kept_distinct: "distinct xs \<Longrightarrow> set xs \<inter> set seen = {} \<Longrightarrow> kept seen xs = xs"
  by (induction xs arbitrary: seen) (auto simp: kept_Nil kept_Cons)

lemma sorted_kept: "sorted (map f xs) \<Longrightarrow> sorted (map f (kept seen xs))"
  by (induction xs arbitrary: seen) (auto simp: kept_Nil kept_Cons set_kept)

lemma kept_positions:
  "kept seen xs =
     map (\<lambda>i. xs ! i) (filter (\<lambda>i. xs ! i \<notin> set seen \<union> set (take i xs)) [0..<length xs])"
proof (induction xs arbitrary: seen)
  case Nil
  show ?case by (simp add: kept_Nil)
next
  case (Cons x xs)
  have "[0..<length (x # xs)] = 0 # map Suc [0..<length xs]"
    by (simp add: upt_conv_Cons map_Suc_upt del: upt_Suc)
  then show ?case
    by (simp add: kept_Cons Cons.IH filter_map comp_def conj_commute conj_left_commute del: upt_Suc)
qed

lemma kept_first_occurrences: "kept [] xs = first_occurrences xs"
  by (simp add: kept_positions first_occurrences_def)

lemma rows_sort_values:
  "rows (sort_values df) = sort_key (\<lambda>r. (Chromosome r, Start r)) (rows df)"
  by (simp add: sort_values_def)

lemma columns_sort_values: "columns (sort_values df) = columns df"
  by (simp add: sort_values_def)

lemma dataframe_eqI: "columns a = columns b \<Longrightarrow> rows a = rows b \<Longrightarrow> (a :: 'r dataframe) = b"
  by simp

text \<open>
  C8. Sorting by (Chromosome, Start) and then dropping duplicates is idempotent: for every
  frame of junctions, doing both steps twice gives exactly the frame that doing them once
  gives.
\<close>

theorem sort_drop_duplicates_idempotent:
  "reset_index (drop_duplicates (sort_values (reset_index (drop_duplicates (sort_values df)))))
     = reset_index (drop_duplicates (sort_values df))"
proof -
  let ?key = "\<lambda>r :: junction. (Chromosome r, Start r)"
  let ?once = "kept [] (sort_key ?key (rows df))"
  have srt: "sorted (map ?key ?once)"
    by (rule sorted_kept) simp
  have "kept [] (sort_key ?key ?once) = ?once"
    by (simp add: sort_key_id_if_sorted [OF srt] kept_distinct distinct_kept)
  then show ?thesis
    by (intro dataframe_eqI)
       (simp_all add: reset_index_def rows_drop_duplicates rows_sort_values
          columns_drop_duplicates columns_sort_values)
qed

lemma generate_splice_sites_Inr:
  "accumulate f g gtf = Inr js \<Longrightarrow>
   generate_splice_sites f g gtf =
     Inr (select_start (drop_duplicates (sort_values
            \<lparr>columns = [''Chromosome'', ''Start'', ''End'', ''Strand''], rows = js\<rparr>)),
          select_end (drop_duplicates (sort_values
            \<lparr>columns = [''Chromosome'', ''Start'', ''End'', ''Strand''], rows = js\<rparr>)))"
  by (simp add: generate_splice_sites_def reset_index_def Let_def)

lemma generate_splice_sites_Inl:
  "accumulate f g gtf = Inl e \<Longrightarrow> generate_splice_sites f g gtf = Inl e"
  by (simp add: generate_splice_sites_def)

lemma generate_splice_sites_returns:
  assumes "generate_splice_sites f g gtf = Inr (starts, ends)"
  obtains js where "accumulate f g gtf = Inr js"
  using assms by (cases "accumulate f g gtf") (simp_all add: generate_splice_sites_def)

text \<open>
  C1. When the function returns, the accumulated junctions \<open>js\<close> have been sorted by
  (Chromosome, Start) ascending: \<open>srt\<close> is a rearrangement of \<open>js\<close>, ascending in the key,
  rows of equal key in their accumulated order. Of \<open>srt\<close> the first occurrences are kept,
  in the order of \<open>srt\<close>, and the two frames returned are the column selections of these
  rows. Hence of any two adjacent rows of the result the first has the smaller or equal
  (Chromosome, Start).
\<close>

theorem sorted_then_first_occurrences:
  assumes "accumulate f g gtf = Inr js"
    and "generate_splice_sites f g gtf = Inr (starts, ends)"
  shows "\<exists>srt out.
           mset srt = mset js
         \<and> sorted (map (\<lambda>r. (Chromosome r, Start r)) srt)
         \<and> (\<forall>k. filter (\<lambda>r. (Chromosome r, Start r) = k) srt
                = filter (\<lambda>r. (Chromosome r, Start r) = k) js)
         \<and> out = first_occurrences srt
         \<and> rows starts = map (\<lambda>r. (Chromosome r, Start r, Strand r)) out
         \<and> rows ends = map (\<lambda>r. (Chromosome r, End r, Strand r)) out
         \<and> (\<forall>i. Suc i < length out \<longrightarrow>
                (Chromosome (out ! i), Start (out ! i))
                  \<le> (Chromosome (out ! Suc i), Start (out ! Suc i)))
         \<and> (\<forall>i. Suc i < length (rows starts) \<longrightarrow>
                (fst (rows starts ! i), fst (snd (rows starts ! i)))
                  \<le> (fst (rows starts ! Suc i), fst (snd (rows starts ! Suc i))))"
proof -
  let ?key = "\<lambda>r :: junction. (Chromosome r, Start r)"
  let ?srt = "sort_key ?key js"
  let ?out = "kept [] ?srt"
  have res: "starts = select_start (drop_duplicates (sort_values
               \<lparr>columns = [''Chromosome'', ''Start'', ''End'', ''Strand''], rows = js\<rparr>))"
       "ends = select_end (drop_duplicates (sort_values
               \<lparr>columns = [''Chromosome'', ''Start'', ''End'', ''Strand''], rows = js\<rparr>))"
    using assms(2) by (simp_all add: generate_splice_sites_Inr [OF assms(1)])
  have rs: "rows starts = map (\<lambda>r. (Chromosome r, Start r, Strand r)) ?out"
    by (simp add: res select_start_def rows_drop_duplicates rows_sort_values)
  have re: "rows ends = map (\<lambda>r. (Chromosome r, End r, Strand r)) ?out"
    by (simp add: res select_end_def rows_drop_duplicates rows_sort_values)
  have so: "sorted (map ?key ?out)"
    by (rule sorted_kept) simp
  then have adj: "\<forall>i. Suc i < length ?out \<longrightarrow> ?key (?out ! i) \<le> ?key (?out ! Suc i)"
    by (simp add: sorted_iff_nth_Suc)
  have adj': "\<forall>i. Suc i < length (rows starts) \<longrightarrow>
                (fst (rows starts ! i), fst (snd (rows starts ! i)))
                  \<le> (fst (rows starts ! Suc i), fst (snd (rows starts ! Suc i)))"
    using adj by (simp add: rs)
  have stable: "\<forall>k. filter (\<lambda>r. ?key r = k) ?srt = filter (\<lambda>r. ?key r = k) js"
    by (simp add: sort_key_stable)
  have perm: "mset ?srt = mset js" and asc: "sorted (map ?key ?srt)"
    by simp_all
  have fo: "?out = first_occurrences ?srt"
    by (rule kept_first_occurrences)
  from perm asc stable fo rs re adj adj' show ?thesis
    by blast
qed

text \<open>
  C10. The two frames returned have the same number of rows, and at every position their
  rows agree in chromosome and in strand: both are column selections of one frame.
\<close>

theorem views_aligned:
  assumes "generate_splice_sites f g gtf = Inr (starts, ends)"
  shows "length (rows starts) = length (rows ends)
       \<and> (\<forall>i<length (rows starts).
              fst (rows starts ! i) = fst (rows ends ! i)
            \<and> snd (snd (rows starts ! i)) = snd (snd (rows ends ! i)))
       \<and> (\<exists>df. starts = select_start df \<and> ends = select_end df)"
proof -
  from assms obtain js where acc: "accumulate f g gtf = Inr js"
    by (rule generate_splice_sites_returns)
  let ?df = "drop_duplicates (sort_values
               \<lparr>columns = [''Chromosome'', ''Start'', ''End'', ''Strand''], rows = js\<rparr>)"
  have res: "starts = select_start ?df" "ends = select_end ?df"
    using assms by (simp_all add: generate_splice_sites_Inr [OF acc])
  have "length (rows starts) = length (rows ends)"
    by (simp add: res select_start_def select_end_def)
  moreover have "\<forall>i<length (rows starts).
              fst (rows starts ! i) = fst (rows ends ! i)
            \<and> snd (snd (rows starts ! i)) = snd (snd (rows ends ! i))"
    by (simp add: res select_start_def select_end_def)
  ultimately show ?thesis
    using res by blast
qed

lemma count_list_map_filter: "count_list (map p xs) t = length (filter (\<lambda>x. p x = t) xs)"
  by (induction xs) simp_all

lemma count_list_map_distinct:
  "distinct xs \<Longrightarrow> count_list (map p xs) t = card {x \<in> set xs. p x = t}"
proof -
  assume "distinct xs"
  then have "length (filter (\<lambda>x. p x = t) xs) = card ({x. p x = t} \<inter> set xs)"
    by (rule distinct_length_filter)
  moreover have "{x. p x = t} \<inter> set xs = {x \<in> set xs. p x = t}"
    by blast
  ultimately show ?thesis
    by (simp add: count_list_map_filter)
qed

lemma two_le_card:
  assumes "finite A" "a \<in> A" "b \<in> A" "a \<noteq> b"
  shows "2 \<le> card A"
proof -
  have "card {a, b} \<le> card A"
    using assms by (intro card_mono) auto
  then show ?thesis
    using assms(4) by simp
qed

text \<open>
  C4. The two frames returned have the columns Chromosome, Start, Strand and Chromosome,
  End, Strand, and are selections of one frame whose rows are the distinct junctions. No
  row of a selection is dropped: a triple of chromosome, start and strand stands in the
  start frame once for every distinct junction that has it, and likewise for the end
  frame. So two junctions with equal chromosome, start and strand and different ends are
  two rows of the start frame, and two junctions with equal chromosome, end and strand and
  different starts are two rows of the end frame.
\<close>

theorem views_keep_every_intron:
  assumes "accumulate f g gtf = Inr js"
    and "generate_splice_sites f g gtf = Inr (starts, ends)"
  shows "columns starts = [''Chromosome'', ''Start'', ''Strand'']
       \<and> columns ends = [''Chromosome'', ''End'', ''Strand'']
       \<and> (\<exists>df. distinct (rows df) \<and> set (rows df) = set js
              \<and> sorted (map (\<lambda>r. (Chromosome r, Start r)) (rows df))
              \<and> starts = select_start df \<and> ends = select_end df)
       \<and> (\<forall>c s d. count_list (rows starts) (c, s, d)
              = card {j \<in> set js. (Chromosome j, Start j, Strand j) = (c, s, d)})
       \<and> (\<forall>c e d. count_list (rows ends) (c, e, d)
              = card {j \<in> set js. (Chromosome j, End j, Strand j) = (c, e, d)})
       \<and> (\<forall>a\<in>set js. \<forall>b\<in>set js.
              Chromosome a = Chromosome b \<and> Start a = Start b \<and> Strand a = Strand b
                \<and> End a \<noteq> End b
              \<longrightarrow> 2 \<le> count_list (rows starts) (Chromosome a, Start a, Strand a))
       \<and> (\<forall>a\<in>set js. \<forall>b\<in>set js.
              Chromosome a = Chromosome b \<and> End a = End b \<and> Strand a = Strand b
                \<and> Start a \<noteq> Start b
              \<longrightarrow> 2 \<le> count_list (rows ends) (Chromosome a, End a, Strand a))"
proof -
  let ?df = "drop_duplicates (sort_values
               \<lparr>columns = [''Chromosome'', ''Start'', ''End'', ''Strand''], rows = js\<rparr>)"
  have res: "starts = select_start ?df" "ends = select_end ?df"
    using assms(2) by (simp_all add: generate_splice_sites_Inr [OF assms(1)])
  have d: "distinct (rows ?df)"
    by (simp add: rows_drop_duplicates distinct_kept)
  have s: "set (rows ?df) = set js"
    by (simp add: rows_drop_duplicates rows_sort_values set_kept)
  have cs: "count_list (rows starts) t = card {j \<in> set js. (Chromosome j, Start j, Strand j) = t}" for t
    using count_list_map_distinct [OF d, of "\<lambda>r. (Chromosome r, Start r, Strand r)" t]
    by (simp add: res select_start_def s)
  have ce: "count_list (rows ends) t = card {j \<in> set js. (Chromosome j, End j, Strand j) = t}" for t
    using count_list_map_distinct [OF d, of "\<lambda>r. (Chromosome r, End r, Strand r)" t]
    by (simp add: res select_end_def s)
  have two_s: "2 \<le> count_list (rows starts) (Chromosome a, Start a, Strand a)"
    if "a \<in> set js" "b \<in> set js" "Chromosome a = Chromosome b" "Start a = Start b"
       "Strand a = Strand b" "End a \<noteq> End b" for a b
  proof -
    have "a \<noteq> b" using that(6) by auto
    then have "2 \<le> card {j \<in> set js. (Chromosome j, Start j, Strand j) = (Chromosome a, Start a, Strand a)}"
      using that by (intro two_le_card [of _ a b]) auto
    then show ?thesis by (simp only: cs)
  qed
  have two_e: "2 \<le> count_list (rows ends) (Chromosome a, End a, Strand a)"
    if "a \<in> set js" "b \<in> set js" "Chromosome a = Chromosome b" "End a = End b"
       "Strand a = Strand b" "Start a \<noteq> Start b" for a b
  proof -
    have "a \<noteq> b" using that(6) by auto
    then have "2 \<le> card {j \<in> set js. (Chromosome j, End j, Strand j) = (Chromosome a, End a, Strand a)}"
      using that by (intro two_le_card [of _ a b]) auto
    then show ?thesis by (simp only: ce)
  qed
  have o: "sorted (map (\<lambda>r. (Chromosome r, Start r)) (rows ?df))"
    by (simp add: rows_drop_duplicates rows_sort_values sorted_kept)
  have "\<exists>df. distinct (rows df) \<and> set (rows df) = set js
              \<and> sorted (map (\<lambda>r. (Chromosome r, Start r)) (rows df))
              \<and> starts = select_start df \<and> ends = select_end df"
    using d s o res by blast
  moreover have "columns starts = [''Chromosome'', ''Start'', ''Strand'']"
    "columns ends = [''Chromosome'', ''End'', ''Strand'']"
    by (simp_all add: res select_start_def select_end_def)
  ultimately show ?thesis
    using cs ce two_s two_e by blast
qed

lemma run_is_function:
  assumes "run f g gtf r"
  shows "r = generate_splice_sites f g gtf"
  using assms
proof cases
  case (raises e)
  then show ?thesis by (simp add: generate_splice_sites_Inl)
next
  case (returns js ys df)
  let ?key = "\<lambda>r :: junction. (Chromosome r, Start r)"
  have "sort_key ?key js = ys"
  proof (rule properties_for_sort_key)
    show "mset ys = mset js" by (rule returns)
    show "sorted (map ?key ys)" by (rule returns)
    show "filter (\<lambda>x. ?key k = ?key x) ys = filter (\<lambda>x. ?key k = ?key x) js" for k
      using returns(5) [of "?key k"] by (simp add: eq_commute)
  qed
  then have "sort_values \<lparr>columns = [''Chromosome'', ''Start'', ''End'', ''Strand''], rows = js\<rparr>
               = \<lparr>columns = [''Chromosome'', ''Start'', ''End'', ''Strand''], rows = ys\<rparr>"
    by (simp add: sort_values_def)
  then show ?thesis
    using returns by (simp add: generate_splice_sites_def Let_def)
qed

text \<open>
  C9. Two runs on the same table give the same result, rows and order alike: whichever
  stable sort by (Chromosome, Start) a run uses, it returns or raises what
  \<open>generate_splice_sites\<close> computes.
\<close>

theorem runs_agree:
  assumes "run f g gtf r1" and "run f g gtf r2"
  shows "r1 = r2 \<and> r1 = generate_splice_sites f g gtf"
  using assms by (auto dest: run_is_function)

lemma run_generate_splice_sites: "run f g gtf (generate_splice_sites f g gtf)"
proof (cases "accumulate f g gtf")
  case (Inl e)
  then show ?thesis
    by (simp add: generate_splice_sites_Inl run.raises)
next
  case (Inr js)
  let ?key = "\<lambda>r :: junction. (Chromosome r, Start r)"
  have "run f g gtf (Inr (select_start (reset_index (drop_duplicates
           \<lparr>columns = [''Chromosome'', ''Start'', ''End'', ''Strand''], rows = sort_key ?key js\<rparr>)),
         select_end (reset_index (drop_duplicates
           \<lparr>columns = [''Chromosome'', ''Start'', ''End'', ''Strand''], rows = sort_key ?key js\<rparr>))))"
    using Inr by (rule run.returns) (simp_all add: sort_key_stable)
  then show ?thesis
    using Inr by (simp add: generate_splice_sites_def Let_def sort_values_def)
qed

subsection \<open>Grouping\<close>

lemma map_filter_filter:
  "(\<And>x. x \<in> set xs \<Longrightarrow> h x \<noteq> None \<Longrightarrow> P x) \<Longrightarrow>
   List.map_filter h (filter P xs) = List.map_filter h xs"
  by (induction xs) (auto split: option.splits)

lemma groupby_filter_rows:
  assumes "\<forall>r\<in>set (rows gtf). transcript_id r \<noteq> None \<longrightarrow> P r"
  shows "groupby_transcript_id (gtf\<lparr>rows := filter P (rows gtf)\<rparr>) = groupby_transcript_id gtf"
proof -
  have keys: "List.map_filter transcript_id (filter P (rows gtf))
                = List.map_filter transcript_id (rows gtf)"
    using assms by (intro map_filter_filter) auto
  have grp: "filter (\<lambda>r. P r \<and> transcript_id r = Some k) (rows gtf)
               = filter (\<lambda>r. transcript_id r = Some k) (rows gtf)" for k
    using assms by (auto intro: filter_cong)
  show ?thesis
    by (simp add: groupby_transcript_id_def keys grp)
qed

lemma generate_filter_rows:
  assumes "\<forall>r\<in>set (rows gtf). transcript_id r \<noteq> None \<longrightarrow> P r"
  shows "accumulate f g (gtf\<lparr>rows := filter P (rows gtf)\<rparr>) = accumulate f g gtf"
    and "generate_splice_sites f g (gtf\<lparr>rows := filter P (rows gtf)\<rparr>)
           = generate_splice_sites f g gtf"
  by (simp_all add: generate_splice_sites_def accumulate_def groupby_filter_rows [OF assms])

lemma transcripts_Inr_D:
  "transcripts f groups = Inr ts \<Longrightarrow>
   list_all2 (\<lambda>(k, df) (k', t). k' = k \<and> f df = Inr t) groups ts"
  by (induction groups arbitrary: ts) (auto split: sum.splits)

lemma set_map_filter: "set (List.map_filter h xs) = {y. \<exists>x\<in>set xs. h x = Some y}"
  by (induction xs) (auto split: option.splits)

text \<open>
  C3. Grouping partitions the rows by \<^verbatim>\<open>transcript_id\<close>: the keys are distinct and are
  exactly the identifiers present; the group of a key holds exactly the rows with that
  identifier, and is not empty. A row without identifier is in no group. Every transcript
  is constructed from one group. Removing the rows without identifier from the table
  changes neither the groups nor what the function returns or raises: such a row
  contributes no intron.
\<close>

theorem absent_transcript_id_in_no_group:
  assumes "groupby_transcript_id gtf = Inr groups"
  shows "distinct (map fst groups)
       \<and> fst ` set groups = {k. \<exists>r\<in>set (rows gtf). transcript_id r = Some k}
       \<and> (\<forall>(k, df)\<in>set groups.
              rows df = filter (\<lambda>r. transcript_id r = Some k) (rows gtf) \<and> rows df \<noteq> [])
       \<and> (\<forall>(k, df)\<in>set groups. \<forall>r\<in>set (rows df). transcript_id r \<noteq> None)
       \<and> (\<forall>ts. transcripts f groups = Inr ts \<longrightarrow>
              list_all2 (\<lambda>(k, df) (k', t). k' = k \<and> f df = Inr t) groups ts)
       \<and> groupby_transcript_id (gtf\<lparr>rows := filter (\<lambda>r. transcript_id r \<noteq> None) (rows gtf)\<rparr>)
           = Inr groups
       \<and> generate_splice_sites f g (gtf\<lparr>rows := filter (\<lambda>r. transcript_id r \<noteq> None) (rows gtf)\<rparr>)
           = generate_splice_sites f g gtf"
proof -
  let ?keys = "sort (remdups (List.map_filter transcript_id (rows gtf)))"
  have groups: "groups = map (\<lambda>k. (k, gtf\<lparr>rows := filter (\<lambda>r. transcript_id r = Some k) (rows gtf)\<rparr>)) ?keys"
    using assms by (simp add: groupby_transcript_id_def split: if_splits)
  have fst_groups: "map fst groups = ?keys"
    by (simp add: groups comp_def)
  have keys: "set ?keys = {k. \<exists>r\<in>set (rows gtf). transcript_id r = Some k}"
    by (simp add: set_map_filter)
  have 1: "distinct (map fst groups)"
    by (simp add: fst_groups)
  have 2: "fst ` set groups = {k. \<exists>r\<in>set (rows gtf). transcript_id r = Some k}"
    using keys fst_groups by (metis set_map)
  have 3: "rows df = filter (\<lambda>r. transcript_id r = Some k) (rows gtf) \<and> rows df \<noteq> []"
    if "(k, df) \<in> set groups" for k df
  proof -
    from that have k: "k \<in> set ?keys" and df: "df = gtf\<lparr>rows := filter (\<lambda>r. transcript_id r = Some k) (rows gtf)\<rparr>"
      by (auto simp: groups)
    from k keys obtain r where "r \<in> set (rows gtf)" "transcript_id r = Some k"
      by blast
    then have "filter (\<lambda>r. transcript_id r = Some k) (rows gtf) \<noteq> []"
      by (auto simp: filter_empty_conv)
    then show ?thesis by (simp add: df)
  qed
  have 4: "transcript_id r \<noteq> None" if "(k, df) \<in> set groups" "r \<in> set (rows df)" for k df r
    using 3 [OF that(1)] that(2) by auto
  have 5: "list_all2 (\<lambda>(k, df) (k', t). k' = k \<and> f df = Inr t) groups ts"
    if "transcripts f groups = Inr ts" for ts
    using that by (rule transcripts_Inr_D)
  have 6: "groupby_transcript_id (gtf\<lparr>rows := filter (\<lambda>r. transcript_id r \<noteq> None) (rows gtf)\<rparr>)
           = Inr groups"
    using assms by (simp add: groupby_filter_rows)
  have 7: "generate_splice_sites f g (gtf\<lparr>rows := filter (\<lambda>r. transcript_id r \<noteq> None) (rows gtf)\<rparr>)
           = generate_splice_sites f g gtf"
    by (simp add: generate_filter_rows)
  show ?thesis
    using 1 2 3 4 5 6 7 by blast
qed

subsection \<open>The transcript module\<close>

lemma from_gtf_df_malformed:
  assumes "exon_rows_disagree df"
  shows "Transcript_from_gtf_df df = Inl MalformedGroupError"
proof -
  let ?ex = "sort_key Start (filter (\<lambda>r. Feature r = ''exon'') (rows df))"
  from assms obtain a b where ab: "a \<in> set ?ex" "b \<in> set ?ex"
    "Chromosome a \<noteq> Chromosome b \<or> Strand a \<noteq> Strand b"
    by (auto simp: exon_rows_disagree_def)
  then obtain r rs where ex: "?ex = r # rs"
    by (cases ?ex) auto
  have "\<not> (\<forall>x\<in>set rs. Chromosome x = Chromosome r \<and> Strand x = Strand r)"
  proof
    assume "\<forall>x\<in>set rs. Chromosome x = Chromosome r \<and> Strand x = Strand r"
    then have "\<forall>x\<in>set ?ex. Chromosome x = Chromosome r \<and> Strand x = Strand r"
      by (simp add: ex)
    with ab show False by metis
  qed
  then show ?thesis
    by (simp add: Transcript_from_gtf_df_def ex)
qed

lemma from_gtf_df_wellformed:
  assumes "\<not> exon_rows_disagree df"
  shows "\<exists>t. Transcript_from_gtf_df df = Inr t
           \<and> exons t = map exon_of (sort_key Start (filter (\<lambda>r. Feature r = ''exon'') (rows df)))
           \<and> (exons t \<noteq> [] \<longrightarrow> transcript_chromosome t \<noteq> None \<and> transcript_strand t \<noteq> None)"
proof (cases "sort_key Start (filter (\<lambda>r. Feature r = ''exon'') (rows df))")
  case Nil
  then show ?thesis
    by (simp add: Transcript_from_gtf_df_def)
next
  case (Cons r rs)
  have mem: "x \<in> set (rows df) \<and> Feature x = ''exon''" if "x \<in> set (r # rs)" for x
    using that by (simp flip: Cons)
  have "Chromosome x = Chromosome r \<and> Strand x = Strand r" if "x \<in> set rs" for x
  proof -
    have "x \<in> set (rows df) \<and> Feature x = ''exon''" "r \<in> set (rows df) \<and> Feature r = ''exon''"
      using that by (simp_all add: mem)
    with assms show ?thesis
      unfolding exon_rows_disagree_def by blast
  qed
  then have "\<forall>x\<in>set rs. Chromosome x = Chromosome r \<and> Strand x = Strand r"
    by blast
  then show ?thesis
    by (simp add: Transcript_from_gtf_df_def Cons)
qed


lemma introns_total: "\<exists>ins. Transcript_introns t = Inr ins"
  by (simp add: Transcript_introns_def split: option.splits)


lemma junctions_introns_total: "\<exists>js. junctions Transcript_introns ts = Inr js"
proof (induction ts)
  case Nil
  show ?case by simp
next
  case (Cons p ts)
  obtain k t where p: "p = (k, t)" by (cases p)
  from introns_total [of t] obtain ins where "Transcript_introns t = Inr ins" ..
  with Cons show ?case by (auto simp: p)
qed


lemma transcripts_malformed:
  "\<exists>(k, df)\<in>set groups. exon_rows_disagree df \<Longrightarrow>
   transcripts Transcript_from_gtf_df groups = Inl MalformedGroupError"
proof (induction groups)
  case Nil
  then show ?case by simp
next
  case (Cons p groups)
  obtain k df where p: "p = (k, df)" by (cases p)
  show ?case
  proof (cases "exon_rows_disagree df")
    case True
    then show ?thesis by (simp add: p from_gtf_df_malformed)
  next
    case False
    with Cons.prems have "\<exists>(k, df)\<in>set groups. exon_rows_disagree df"
      by (simp add: p)
    then have "transcripts Transcript_from_gtf_df groups = Inl MalformedGroupError"
      by (rule Cons.IH)
    moreover from from_gtf_df_wellformed [OF False]
    obtain t where "Transcript_from_gtf_df df = Inr t" by blast
    ultimately show ?thesis by (simp add: p)
  qed
qed

lemma transcripts_wellformed:
  "\<forall>(k, df)\<in>set groups. \<not> exon_rows_disagree df \<Longrightarrow>
   \<exists>ts. transcripts Transcript_from_gtf_df groups = Inr ts"
proof (induction groups)
  case Nil
  then show ?case by simp
next
  case (Cons p groups)
  obtain k df where p: "p = (k, df)" by (cases p)
  from Cons.prems have "\<not> exon_rows_disagree df" by (simp add: p)
  from from_gtf_df_wellformed [OF this]
  obtain t where "Transcript_from_gtf_df df = Inr t" by blast
  moreover from Cons obtain ts where "transcripts Transcript_from_gtf_df groups = Inr ts"
    by auto
  ultimately show ?case by (simp add: p)
qed

lemma generate_modelled:
  assumes "groupby_transcript_id gtf = Inr groups"
  shows "((\<exists>(k, df)\<in>set groups. exon_rows_disagree df) \<longrightarrow>
            generate_splice_sites Transcript_from_gtf_df Transcript_introns gtf
              = Inl MalformedGroupError)
       \<and> (\<not> (\<exists>(k, df)\<in>set groups. exon_rows_disagree df) \<longrightarrow>
            (\<exists>starts ends.
               generate_splice_sites Transcript_from_gtf_df Transcript_introns gtf
                 = Inr (starts, ends)))"
proof (intro conjI impI)
  assume "\<exists>(k, df)\<in>set groups. exon_rows_disagree df"
  then have "transcripts Transcript_from_gtf_df groups = Inl MalformedGroupError"
    by (rule transcripts_malformed)
  then have "accumulate Transcript_from_gtf_df Transcript_introns gtf = Inl MalformedGroupError"
    by (simp add: accumulate_def assms)
  then show "generate_splice_sites Transcript_from_gtf_df Transcript_introns gtf
               = Inl MalformedGroupError"
    by (rule generate_splice_sites_Inl)
next
  assume "\<not> (\<exists>(k, df)\<in>set groups. exon_rows_disagree df)"
  then have "\<forall>(k, df)\<in>set groups. \<not> exon_rows_disagree df"
    by auto
  then obtain ts where ts: "transcripts Transcript_from_gtf_df groups = Inr ts"
    using transcripts_wellformed by blast
  obtain js where "junctions Transcript_introns ts = Inr js"
    using junctions_introns_total by blast
  then have "accumulate Transcript_from_gtf_df Transcript_introns gtf = Inr js"
    by (simp add: accumulate_def assms ts)
  then show "\<exists>starts ends.
               generate_splice_sites Transcript_from_gtf_df Transcript_introns gtf
                 = Inr (starts, ends)"
    by (simp add: generate_splice_sites_Inr)
qed

lemma transcripts_first_error:
  "\<forall>(k', d)\<in>set pre. \<exists>t. f d = Inr t \<Longrightarrow> f df = Inl e \<Longrightarrow>
   transcripts f (pre @ (k, df) # post) = Inl e"
  by (induction pre) auto

text \<open>
  C5. An exception of \<open>from_gtf_df\<close> on a group, all groups before it having been built,
  is the result of the function: nothing is caught and no frame is returned. With
  \<open>Transcript_from_gtf_df\<close>: if the exon rows of some group disagree on chromosome or
  strand, the function raises \<open>MalformedGroupError\<close>; if those of no group do, it does
  not.
\<close>

theorem malformed_group_raised:
  assumes "groupby_transcript_id gtf = Inr groups"
  shows "(\<forall>pre k df post e.
            groups = pre @ (k, df) # post \<and> (\<forall>(k', d)\<in>set pre. \<exists>t. f d = Inr t)
              \<and> f df = Inl e
            \<longrightarrow> generate_splice_sites f g gtf = Inl e)
       \<and> ((\<exists>(k, df)\<in>set groups. exon_rows_disagree df) \<longrightarrow>
            generate_splice_sites Transcript_from_gtf_df Transcript_introns gtf
              = Inl MalformedGroupError)
       \<and> (\<not> (\<exists>(k, df)\<in>set groups. exon_rows_disagree df) \<longrightarrow>
            generate_splice_sites Transcript_from_gtf_df Transcript_introns gtf
              \<noteq> Inl MalformedGroupError)"
proof -
  have "generate_splice_sites f g gtf = Inl e"
    if "groups = pre @ (k, df) # post" "\<forall>(k', d)\<in>set pre. \<exists>t. f d = Inr t" "f df = Inl e"
    for pre k df post e
  proof -
    have "transcripts f groups = Inl e"
      unfolding that(1) using that(2,3) by (rule transcripts_first_error)
    then have "accumulate f g gtf = Inl e"
      by (simp add: accumulate_def assms)
    then show ?thesis
      by (rule generate_splice_sites_Inl)
  qed
  moreover have "generate_splice_sites Transcript_from_gtf_df Transcript_introns gtf
                   \<noteq> Inl MalformedGroupError"
    if "\<not> (\<exists>(k, df)\<in>set groups. exon_rows_disagree df)"
    using generate_modelled [OF assms] that by auto
  ultimately show ?thesis
    using generate_modelled [OF assms] by blast
qed








subsection \<open>Evaluation at the tables\<close>

lemma four_transcripts_groups:
  "groupby_transcript_id four_transcripts =
     Inr [(''T0'', \<lparr>columns = gtf_columns, rows =
             [gtf_line ''chr2'' 5 8 ''-'' ''exon'' (Some ''T0''),
              gtf_line ''chr2'' 9 12 ''-'' ''exon'' (Some ''T0'')]\<rparr>),
          (''T1'', \<lparr>columns = gtf_columns, rows =
             [gtf_line ''chr1'' 0 10 ''+'' ''exon'' (Some ''T1''),
              gtf_line ''chr1'' 20 30 ''+'' ''exon'' (Some ''T1''),
              gtf_line ''chr1'' 40 50 ''+'' ''exon'' (Some ''T1'')]\<rparr>),
          (''T2'', \<lparr>columns = gtf_columns, rows =
             [gtf_line ''chr1'' 20 30 ''+'' ''exon'' (Some ''T2''),
              gtf_line ''chr1'' 45 50 ''+'' ''exon'' (Some ''T2''),
              gtf_line ''chr1'' 0 10 ''+'' ''exon'' (Some ''T2'')]\<rparr>),
          (''T3'', \<lparr>columns = gtf_columns, rows =
             [gtf_line ''chr1'' 0 15 ''+'' ''exon'' (Some ''T3''),
              gtf_line ''chr1'' 20 30 ''+'' ''exon'' (Some ''T3'')]\<rparr>)]"
  by (simp add: groupby_transcript_id_def four_transcripts_def gtf_columns_def gtf_line_def)

lemma four_transcripts_accumulate:
  "accumulate Transcript_from_gtf_df Transcript_introns four_transcripts
     = Inr four_transcripts_junctions"
  by (simp add: accumulate_def four_transcripts_groups Transcript_from_gtf_df_def
        Transcript_introns_def exon_of_def junction_of_def gtf_line_def
        four_transcripts_junctions_def junction_row_def)

lemma four_transcripts_sites:
  "generate_splice_sites Transcript_from_gtf_df Transcript_introns four_transcripts
     = Inr (four_transcripts_starts, four_transcripts_ends)"
  by (simp add: generate_splice_sites_Inr [OF four_transcripts_accumulate]
        sort_values_def drop_duplicates_def select_start_def select_end_def
        four_transcripts_junctions_def junction_row_def
        four_transcripts_starts_def four_transcripts_ends_def)

lemma processed_gtf_groups:
  "groupby_transcript_id processed_gtf =
     Inr [(''TRANS00000000001.2'', \<lparr>columns = gtf_columns, rows =
             [gtf_line ''chr1'' 12099 18244 ''+'' ''transcript'' (Some ''TRANS00000000001.2''),
              gtf_line ''chr1'' 12099 14148 ''+'' ''exon'' (Some ''TRANS00000000001.2''),
              gtf_line ''chr1'' 16195 17220 ''+'' ''exon'' (Some ''TRANS00000000001.2'')]\<rparr>)]"
  by (simp add: groupby_transcript_id_def processed_gtf_def gtf_columns_def gtf_line_def)

lemma processed_gtf_accumulate:
  "accumulate Transcript_from_gtf_df Transcript_introns processed_gtf
     = Inr [junction_row ''chr1'' 14148 16195 ''+'']"
  by (simp add: accumulate_def processed_gtf_groups Transcript_from_gtf_df_def
        Transcript_introns_def exon_of_def junction_of_def gtf_line_def junction_row_def)

text \<open>The test \<^verbatim>\<open>test_generate_splice_sites\<close>.\<close>

lemma test_generate_splice_sites:
  "generate_splice_sites Transcript_from_gtf_df Transcript_introns processed_gtf
     = Inr (\<lparr>columns = [''Chromosome'', ''Start'', ''Strand''], rows = [(''chr1'', 14148, ''+'')]\<rparr>,
            \<lparr>columns = [''Chromosome'', ''End'', ''Strand''], rows = [(''chr1'', 16195, ''+'')]\<rparr>)"
  by (simp add: generate_splice_sites_Inr [OF processed_gtf_accumulate]
        sort_values_def drop_duplicates_def select_start_def select_end_def junction_row_def)

lemma mixed_strands_groups:
  "groupby_transcript_id mixed_strands = Inr [(''T1'', mixed_strands)]"
  by (simp add: groupby_transcript_id_def mixed_strands_def gtf_columns_def gtf_line_def)

lemma mixed_strands_disagree: "exon_rows_disagree mixed_strands"
  by (simp add: exon_rows_disagree_def mixed_strands_def gtf_columns_def gtf_line_def)



subsection \<open>The statements at the tables\<close>

theorem sorted_then_first_occurrences_witness:
  "accumulate Transcript_from_gtf_df Transcript_introns four_transcripts
     = Inr four_transcripts_junctions
   \<and> generate_splice_sites Transcript_from_gtf_df Transcript_introns four_transcripts
     = Inr (four_transcripts_starts, four_transcripts_ends)
   \<and> (\<exists>srt out.
         mset srt = mset four_transcripts_junctions
       \<and> sorted (map (\<lambda>r. (Chromosome r, Start r)) srt)
       \<and> out = first_occurrences srt
       \<and> rows four_transcripts_starts = map (\<lambda>r. (Chromosome r, Start r, Strand r)) out
       \<and> rows four_transcripts_ends = map (\<lambda>r. (Chromosome r, End r, Strand r)) out)"
proof -
  from sorted_then_first_occurrences [OF four_transcripts_accumulate four_transcripts_sites]
  obtain srt out where
    "mset srt = mset four_transcripts_junctions"
    "sorted (map (\<lambda>r. (Chromosome r, Start r)) srt)"
    "out = first_occurrences srt"
    "rows four_transcripts_starts = map (\<lambda>r. (Chromosome r, Start r, Strand r)) out"
    "rows four_transcripts_ends = map (\<lambda>r. (Chromosome r, End r, Strand r)) out"
    by blast
  then show ?thesis
    using four_transcripts_accumulate four_transcripts_sites by blast
qed

theorem views_aligned_witness:
  "generate_splice_sites Transcript_from_gtf_df Transcript_introns four_transcripts
     = Inr (four_transcripts_starts, four_transcripts_ends)
   \<and> length (rows four_transcripts_starts) = length (rows four_transcripts_ends)
   \<and> (\<exists>df. four_transcripts_starts = select_start df \<and> four_transcripts_ends = select_end df)"
  using views_aligned [OF four_transcripts_sites] four_transcripts_sites by blast

theorem views_keep_every_intron_witness:
  "accumulate Transcript_from_gtf_df Transcript_introns four_transcripts
     = Inr four_transcripts_junctions
   \<and> generate_splice_sites Transcript_from_gtf_df Transcript_introns four_transcripts
     = Inr (four_transcripts_starts, four_transcripts_ends)
   \<and> 2 \<le> count_list (rows four_transcripts_starts) (''chr1'', 30, ''+'')
   \<and> 2 \<le> count_list (rows four_transcripts_ends) (''chr1'', 20, ''+'')"
proof -
  note inst = views_keep_every_intron [OF four_transcripts_accumulate four_transcripts_sites]
  have mem: "junction_row ''chr1'' 30 40 ''+'' \<in> set four_transcripts_junctions"
    "junction_row ''chr1'' 30 45 ''+'' \<in> set four_transcripts_junctions"
    "junction_row ''chr1'' 10 20 ''+'' \<in> set four_transcripts_junctions"
    "junction_row ''chr1'' 15 20 ''+'' \<in> set four_transcripts_junctions"
    by (simp_all add: four_transcripts_junctions_def)
  from inst mem(1,2) have "2 \<le> count_list (rows four_transcripts_starts)
      (Chromosome (junction_row ''chr1'' 30 40 ''+''), Start (junction_row ''chr1'' 30 40 ''+''),
       Strand (junction_row ''chr1'' 30 40 ''+''))"
    by (elim conjE ballE [of _ _ "junction_row ''chr1'' 30 40 ''+''"]
             ballE [of _ _ "junction_row ''chr1'' 30 45 ''+''"])
       (simp_all add: junction_row_def)
  moreover from inst mem(3,4) have "2 \<le> count_list (rows four_transcripts_ends)
      (Chromosome (junction_row ''chr1'' 10 20 ''+''), End (junction_row ''chr1'' 10 20 ''+''),
       Strand (junction_row ''chr1'' 10 20 ''+''))"
    by (elim conjE ballE [of _ _ "junction_row ''chr1'' 10 20 ''+''"]
             ballE [of _ _ "junction_row ''chr1'' 15 20 ''+''"])
       (simp_all add: junction_row_def)
  ultimately show ?thesis
    using four_transcripts_accumulate four_transcripts_sites by (simp add: junction_row_def)
qed

theorem absent_transcript_id_in_no_group_witness:
  "groupby_transcript_id processed_gtf =
     Inr [(''TRANS00000000001.2'', \<lparr>columns = gtf_columns, rows =
             [gtf_line ''chr1'' 12099 18244 ''+'' ''transcript'' (Some ''TRANS00000000001.2''),
              gtf_line ''chr1'' 12099 14148 ''+'' ''exon'' (Some ''TRANS00000000001.2''),
              gtf_line ''chr1'' 16195 17220 ''+'' ''exon'' (Some ''TRANS00000000001.2'')]\<rparr>)]
   \<and> rows (processed_gtf\<lparr>rows := filter (\<lambda>r. transcript_id r \<noteq> None) (rows processed_gtf)\<rparr>)
       = tl (rows processed_gtf)
   \<and> generate_splice_sites Transcript_from_gtf_df Transcript_introns
        (processed_gtf\<lparr>rows := filter (\<lambda>r. transcript_id r \<noteq> None) (rows processed_gtf)\<rparr>)
       = generate_splice_sites Transcript_from_gtf_df Transcript_introns processed_gtf"
proof -
  have "rows (processed_gtf\<lparr>rows := filter (\<lambda>r. transcript_id r \<noteq> None) (rows processed_gtf)\<rparr>)
       = tl (rows processed_gtf)"
    by (simp add: processed_gtf_def gtf_columns_def gtf_line_def)
  then show ?thesis
    using absent_transcript_id_in_no_group [OF processed_gtf_groups] processed_gtf_groups
    by blast
qed

theorem runs_agree_witness:
  "run Transcript_from_gtf_df Transcript_introns four_transcripts
     (generate_splice_sites Transcript_from_gtf_df Transcript_introns four_transcripts)
   \<and> run Transcript_from_gtf_df Transcript_introns four_transcripts
       (Inr (four_transcripts_starts, four_transcripts_ends))
   \<and> generate_splice_sites Transcript_from_gtf_df Transcript_introns four_transcripts
       = Inr (four_transcripts_starts, four_transcripts_ends)"
proof -
  let ?ys = "[junction_row ''chr1'' 10 20 ''+'', junction_row ''chr1'' 10 20 ''+'',
              junction_row ''chr1'' 15 20 ''+'', junction_row ''chr1'' 30 40 ''+'',
              junction_row ''chr1'' 30 45 ''+'', junction_row ''chr2'' 8 9 ''-'']"
  let ?df = "reset_index (drop_duplicates
               \<lparr>columns = [''Chromosome'', ''Start'', ''End'', ''Strand''], rows = ?ys\<rparr>)"
  have one: "run Transcript_from_gtf_df Transcript_introns four_transcripts
     (generate_splice_sites Transcript_from_gtf_df Transcript_introns four_transcripts)"
    by (rule run_generate_splice_sites)
  have "run Transcript_from_gtf_df Transcript_introns four_transcripts
          (Inr (select_start ?df, select_end ?df))"
  proof (rule run.returns [OF four_transcripts_accumulate])
    show "mset ?ys = mset four_transcripts_junctions"
      by (simp add: four_transcripts_junctions_def)
    show "sorted (map (\<lambda>r. (Chromosome r, Start r)) ?ys)"
      by (simp add: junction_row_def)
    show "filter (\<lambda>r. (Chromosome r, Start r) = k) ?ys
            = filter (\<lambda>r. (Chromosome r, Start r) = k) four_transcripts_junctions" for k
      by (auto simp add: four_transcripts_junctions_def junction_row_def)
  qed simp
  moreover have "select_start ?df = four_transcripts_starts" "select_end ?df = four_transcripts_ends"
    by (simp_all add: reset_index_def drop_duplicates_def select_start_def select_end_def
          junction_row_def four_transcripts_starts_def four_transcripts_ends_def)
  ultimately have two: "run Transcript_from_gtf_df Transcript_introns four_transcripts
       (Inr (four_transcripts_starts, four_transcripts_ends))"
    by simp
  from runs_agree [OF two one] one two show ?thesis
    by simp
qed



theorem malformed_group_raised_witness:
  "groupby_transcript_id mixed_strands = Inr [(''T1'', mixed_strands)]
   \<and> exon_rows_disagree mixed_strands
   \<and> generate_splice_sites Transcript_from_gtf_df Transcript_introns mixed_strands
       = Inl MalformedGroupError
   \<and> \<not> exon_rows_disagree (snd (hd (projr (groupby_transcript_id processed_gtf))))
   \<and> generate_splice_sites Transcript_from_gtf_df Transcript_introns processed_gtf
       \<noteq> Inl MalformedGroupError"
proof -
  have bad: "\<exists>(k, df)\<in>set [(''T1'', mixed_strands)]. exon_rows_disagree df"
    by (simp add: mixed_strands_disagree)
  have good: "\<not> exon_rows_disagree (snd (hd (projr (groupby_transcript_id processed_gtf))))"
    by (simp add: processed_gtf_groups exon_rows_disagree_def gtf_line_def)
  then have good': "\<not> (\<exists>(k, df)\<in>set (projr (groupby_transcript_id processed_gtf)).
                          exon_rows_disagree df)"
    by (simp add: processed_gtf_groups)
  have grp: "groupby_transcript_id processed_gtf
               = Inr (projr (groupby_transcript_id processed_gtf))"
    by (simp add: processed_gtf_groups)
  from malformed_group_raised [OF mixed_strands_groups] bad
  have "generate_splice_sites Transcript_from_gtf_df Transcript_introns mixed_strands
       = Inl MalformedGroupError"
    by blast
  moreover from malformed_group_raised [OF grp] good'
  have "generate_splice_sites Transcript_from_gtf_df Transcript_introns processed_gtf
          \<noteq> Inl MalformedGroupError"
    by blast
  ultimately show ?thesis
    using mixed_strands_groups mixed_strands_disagree good by blast
qed




end
